theory Spec2Isabelle
  imports Main
begin

section \<open>Characters and strings\<close>

text \<open>
  Python strings are modelled as \<^typ>\<open>string\<close>. The two characters the editor and the
  file layer treat specially are line feed and carriage return.
\<close>

abbreviation LF :: char where "LF \<equiv> CHR 0x0A"
abbreviation CR :: char where "CR \<equiv> CHR 0x0D"

text \<open>\<^verbatim>\<open>data.rstrip('\n')\<close>: every trailing line feed is removed.\<close>

definition rstrip_newlines :: "string \<Rightarrow> string" where
  "rstrip_newlines data = rev (dropWhile (\<lambda>c. c = LF) (rev data))"

section \<open>The file system, as \<^verbatim>\<open>open(..., encoding='utf-8')\<close> sees it\<close>

text \<open>
  Both \<^verbatim>\<open>open\<close> calls of the program use text mode with the default \<^verbatim>\<open>newline=None\<close>:
  on writing, each line feed becomes \<^verbatim>\<open>os.linesep\<close>; on reading, \<^verbatim>\<open>\r\n\<close> and a lone
  \<^verbatim>\<open>\r\<close> become a line feed. A file either holds decodable text, holds bytes that are not
  UTF-8, or may not be read at all.
\<close>

datatype platform = Posix | Windows

fun linesep :: "platform \<Rightarrow> string" where
  "linesep Posix = [LF]"
| "linesep Windows = [CR, LF]"

datatype node = Stored string | Undecodable | Unreadable

datatype io_error = FileNotFoundError | PermissionError | UnicodeDecodeError

record filesystem =
  os :: platform
  files :: "string \<Rightarrow> node option"
  writable :: "string \<Rightarrow> bool"

fun universal_newlines :: "string \<Rightarrow> string" where
  "universal_newlines [] = []"
| "universal_newlines [c] = [if c = CR then LF else c]"
| "universal_newlines (c # d # ds) =
     (if c = CR \<and> d = LF then LF # universal_newlines ds
      else (if c = CR then LF else c) # universal_newlines (d # ds))"

definition translate_newlines :: "platform \<Rightarrow> string \<Rightarrow> string" where
  "translate_newlines pf data = concat (map (\<lambda>c. if c = LF then linesep pf else [c]) data)"

definition read_text :: "filesystem \<Rightarrow> string \<Rightarrow> io_error + string" where
  "read_text fs path =
     (case files fs path of
        None \<Rightarrow> Inl FileNotFoundError
      | Some Unreadable \<Rightarrow> Inl PermissionError
      | Some Undecodable \<Rightarrow> Inl UnicodeDecodeError
      | Some (Stored txt) \<Rightarrow> Inr (universal_newlines txt))"

definition write_text :: "filesystem \<Rightarrow> string \<Rightarrow> string \<Rightarrow> io_error + filesystem" where
  "write_text fs path data =
     (if \<not> writable fs path then Inl PermissionError
      else Inr (fs\<lparr>files := (files fs)(path \<mapsto>
             (case files fs path of
                Some Unreadable \<Rightarrow> Unreadable
              | _ \<Rightarrow> Stored (translate_newlines (os fs) data)))\<rparr>))"

section \<open>Application state\<close>

text \<open>
  The message boxes the program shows are kept as a log. The constructors stand for
  \<^verbatim>\<open>showerror('Open File', ...)\<close>, \<^verbatim>\<open>showerror('Save File', ...)\<close>,
  \<^verbatim>\<open>showinfo('Find', 'No more matches found')\<close>, \<^verbatim>\<open>showinfo('Replace', 'No matches found')\<close>
  and \<^verbatim>\<open>showinfo('Replace All', 'Replaced {count} occurrence(s)')\<close>.
\<close>

datatype message =
    Open_failed io_error
  | Save_failed io_error
  | No_more_matches
  | No_matches
  | Replaced nat

text \<open>The three answers of \<^verbatim>\<open>messagebox.askyesnocancel\<close>: \<^verbatim>\<open>True\<close>, \<^verbatim>\<open>False\<close>, \<^verbatim>\<open>None\<close>.\<close>

datatype choice = Yes | No | Cancel

text \<open>
  \<open>content\<close> is the text of the widget without the line feed that the widget keeps after
  the last character; \<open>insert_mark\<close> is the caret as a character offset into it;
  \<open>modified\<close> is the widget's modified flag and \<open>pending\<close> counts the \<^verbatim>\<open><<Modified>>\<close>
  events that are queued and not yet delivered. \<open>title\<close> and \<open>status\<close> hold what the title
  bar and the status line are rendered from (the path whose basename is shown, or \<open>None\<close>
  for \<^verbatim>\<open>Untitled\<close>). Fonts, scrolling and the highlight tag are display only and are not
  part of the state.
\<close>

record editor =
  content :: string
  insert_mark :: nat
  modified :: bool
  pending :: nat
  wrap :: bool
  filename :: "string option"
  title :: "string option \<times> bool"
  status :: "string option \<times> nat \<times> nat \<times> bool"
  dialogs :: "message list"
  disk :: filesystem
  running :: bool

section \<open>The text widget\<close>

text \<open>\<^verbatim>\<open>text.get('1.0', tk.END)\<close>: the text followed by the widget's closing line feed.\<close>

definition tk_get_all :: "editor \<Rightarrow> string" where
  "tk_get_all s = content s @ [LF]"

text \<open>The index \<^verbatim>\<open>line.column\<close> of a character offset: lines count from 1, columns from 0.\<close>

definition tk_index :: "string \<Rightarrow> nat \<Rightarrow> nat \<times> nat" where
  "tk_index txt off =
     (Suc (count_list (take off txt) LF),
      length (takeWhile (\<lambda>c. c \<noteq> LF) (rev (take off txt))))"

text \<open>The offset just after the \<open>k\<close>-th line feed (the end of the text when there are fewer).\<close>

fun skip_lines :: "nat \<Rightarrow> string \<Rightarrow> nat" where
  "skip_lines 0 cs = 0"
| "skip_lines (Suc k) [] = 0"
| "skip_lines (Suc k) (c # cs) =
     Suc (if c = LF then skip_lines k cs else skip_lines (Suc k) cs)"

text \<open>The offset of the index \<^verbatim>\<open>line.column\<close>; a column past the line's end means its end.\<close>

definition tk_offset :: "string \<Rightarrow> nat \<Rightarrow> nat \<Rightarrow> nat" where
  "tk_offset txt line col =
     (let start = skip_lines (line - 1) txt
      in start + min col (length (takeWhile (\<lambda>c. c \<noteq> LF) (drop start txt))))"

text \<open>\<^verbatim>\<open>int(text.index('end-1c').split('.')[0])\<close>: the line of the closing line feed.\<close>

definition last_line :: "editor \<Rightarrow> nat" where
  "last_line s = fst (tk_index (content s) (length (content s)))"

text \<open>
  Every insertion or deletion sets the modified flag; the widget queues a
  \<^verbatim>\<open><<Modified>>\<close> event whenever the flag changes its value.
\<close>

definition touch :: "editor \<Rightarrow> editor" where
  "touch s = s\<lparr>modified := True, pending := pending s + (if modified s then 0 else 1)\<rparr>"

definition edit_modified :: "bool \<Rightarrow> editor \<Rightarrow> editor" where
  "edit_modified b s =
     s\<lparr>modified := b, pending := pending s + (if modified s = b then 0 else 1)\<rparr>"

text \<open>
  \<^verbatim>\<open>text.delete(i, j)\<close> on offsets. The closing line feed cannot be deleted, so \<open>j\<close> is cut
  at the length of the text; an empty range changes nothing. The caret keeps its place
  relative to the text around it.
\<close>

definition tk_delete :: "nat \<Rightarrow> nat \<Rightarrow> editor \<Rightarrow> editor" where
  "tk_delete i j s =
     (let txt = content s; j' = min j (length txt); m = insert_mark s
      in if j' \<le> i then s
         else touch (s\<lparr>content := take i txt @ drop j' txt,
                        insert_mark := (if m \<le> i then m
                                        else if j' \<le> m then m - (j' - i) else i)\<rparr>))"

text \<open>
  \<^verbatim>\<open>text.insert(i, chars)\<close>. The caret has right gravity: text inserted at the caret ends
  up before it. Inserting the empty string changes nothing.
\<close>

definition tk_insert :: "nat \<Rightarrow> string \<Rightarrow> editor \<Rightarrow> editor" where
  "tk_insert i chars s =
     (let txt = content s; i' = min i (length txt); m = insert_mark s
      in if chars = [] then s
         else touch (s\<lparr>content := take i' txt @ chars @ drop i' txt,
                        insert_mark := (if i' \<le> m then m + length chars else m)\<rparr>))"

definition mark_set_insert :: "nat \<Rightarrow> editor \<Rightarrow> editor" where
  "mark_set_insert off s = s\<lparr>insert_mark := min off (length (content s))\<rparr>"

section \<open>Status line and title\<close>

text \<open>\<^verbatim>\<open>os.path.basename(self.filename) if self.filename else 'Untitled'\<close>\<close>

definition display_name :: "editor \<Rightarrow> string option" where
  "display_name s = (case filename s of None \<Rightarrow> None | Some f \<Rightarrow> if f = [] then None else Some f)"

definition update_status :: "editor \<Rightarrow> editor" where
  "update_status s =
     (let (row, col) = tk_index (content s) (insert_mark s)
      in s\<lparr>status := (display_name s, row, col + 1, wrap s)\<rparr>)"

definition update_title :: "editor \<Rightarrow> editor" where
  "update_title s = s\<lparr>title := (display_name s, modified s)\<rparr>"

section \<open>Go to line\<close>

text \<open>
  \<open>goto_line\<close> takes the answer of \<^verbatim>\<open>simpledialog.askinteger\<close>: \<open>None\<close> when the dialog was
  cancelled.
\<close>

definition goto_line :: "int option \<Rightarrow> editor \<Rightarrow> editor" where
  "goto_line answer s =
     (case answer of
        None \<Rightarrow> s
      | Some line \<Rightarrow>
          let max_line = int (last_line s);
              line1 = (if line < 1 then 1 else line);
              line2 = (if line1 > max_line then max_line else line1)
          in update_status (mark_set_insert (tk_offset (content s) (nat line2) 0) s))"

section \<open>File commands\<close>

text \<open>
  The answers the user gives in a handler's dialogs are its arguments: \<open>ch\<close> is the button
  pressed in the unsaved-changes prompt, \<open>save_dialog\<close> and \<open>file\<close> are the paths returned
  by \<^verbatim>\<open>asksaveasfilename\<close> and \<^verbatim>\<open>askopenfilename\<close> (empty when the dialog was
  cancelled). An answer is only looked at where the source opens the dialog. A handler that
  returns a value returns it paired with the new state.
\<close>

definition save_as :: "string \<Rightarrow> editor \<Rightarrow> bool \<times> editor" where
  "save_as file s =
     (if file \<noteq> [] then
        (let data = tk_get_all s
         in case write_text (disk s) file (rstrip_newlines data) of
              Inr fs \<Rightarrow>
                (True, update_title (edit_modified False (s\<lparr>disk := fs, filename := Some file\<rparr>)))
            | Inl e \<Rightarrow> (False, s\<lparr>dialogs := dialogs s @ [Save_failed e]\<rparr>))
      else (False, s))"

definition save_file :: "string \<Rightarrow> editor \<Rightarrow> bool \<times> editor" where
  "save_file save_dialog s =
     (case display_name s of
        Some path \<Rightarrow>
          (let data = tk_get_all s
           in case write_text (disk s) path (rstrip_newlines data) of
                Inr fs \<Rightarrow> (True, update_title (edit_modified False (s\<lparr>disk := fs\<rparr>)))
              | Inl e \<Rightarrow> (False, s\<lparr>dialogs := dialogs s @ [Save_failed e]\<rparr>))
      | None \<Rightarrow> save_as save_dialog s)"

definition maybe_save :: "choice \<Rightarrow> string \<Rightarrow> editor \<Rightarrow> bool \<times> editor" where
  "maybe_save ch save_dialog s =
     (if modified s then
        (case ch of
           Yes \<Rightarrow> save_file save_dialog s
         | Cancel \<Rightarrow> (False, s)
         | No \<Rightarrow> (True, s))
      else (True, s))"

definition new_file :: "choice \<Rightarrow> string \<Rightarrow> editor \<Rightarrow> editor" where
  "new_file ch save_dialog s =
     (let (ok, s1) = maybe_save ch save_dialog s
      in if ok
         then update_title ((tk_delete 0 (Suc (length (content s1))) s1)\<lparr>filename := None\<rparr>)
         else s1)"

definition open_file :: "choice \<Rightarrow> string \<Rightarrow> string \<Rightarrow> editor \<Rightarrow> editor" where
  "open_file ch save_dialog file s =
     (let (ok, s1) = maybe_save ch save_dialog s
      in if \<not> ok then s1
         else if file \<noteq> [] then
           (case read_text (disk s1) file of
              Inr data \<Rightarrow>
                edit_modified False (update_title
                  ((tk_insert 0 data (tk_delete 0 (Suc (length (content s1))) s1))
                     \<lparr>filename := Some file\<rparr>))
            | Inl e \<Rightarrow> s1\<lparr>dialogs := dialogs s1 @ [Open_failed e]\<rparr>)
         else s1)"


section \<open>The \<^verbatim>\<open><<Modified>>\<close> handler and the event loop\<close>

definition on_modified :: "editor \<Rightarrow> editor" where
  "on_modified s = update_status (edit_modified False s)"

text \<open>
  Between two commands of the user the event loop delivers the queued \<^verbatim>\<open><<Modified>>\<close>
  events, each to \<open>on_modified\<close>, until none is left.
\<close>

function deliver_events :: "editor \<Rightarrow> editor" where
  "deliver_events s =
     (if pending s = 0 then s
      else deliver_events (on_modified (s\<lparr>pending := pending s - 1\<rparr>)))"
  by pat_completeness auto
termination
  by (relation "measure (\<lambda>s. pending s + (if modified s then 2 else 0))")
     (auto simp: on_modified_def update_status_def edit_modified_def split: prod.splits)

text \<open>
  Typing: the widget inserts the characters at the caret, the \<^verbatim>\<open><Key>\<close> binding of the
  root window refreshes the status line, then the queued events are delivered.
\<close>

definition type_text :: "string \<Rightarrow> editor \<Rightarrow> editor" where
  "type_text chars s = deliver_events (update_status (tk_insert (insert_mark s) chars s))"

section \<open>Find and replace\<close>

text \<open>
  \<^verbatim>\<open>text.search(needle, start, stopindex='end')\<close>: the first offset at or after \<open>start\<close>
  where the needle occurs, searching forward and stopping at the end of the text. With
  \<^verbatim>\<open>nocase=1\<close> letters are compared in lower case. The needle comes from a one-line entry
  field; the search looks at the characters of the text proper.
\<close>

definition lower_char :: "char \<Rightarrow> char" where
  "lower_char c =
     (let n = (of_char c :: nat) in if 65 \<le> n \<and> n \<le> 90 then char_of (n + 32) else c)"

definition fold_case :: "bool \<Rightarrow> string \<Rightarrow> string" where
  "fold_case nocase cs = (if nocase then map lower_char cs else cs)"

definition matches_at :: "bool \<Rightarrow> string \<Rightarrow> string \<Rightarrow> nat \<Rightarrow> bool" where
  "matches_at nocase needle cs i =
     (i + length needle \<le> length cs \<and>
      fold_case nocase (take (length needle) (drop i cs)) = fold_case nocase needle)"

definition tk_search :: "bool \<Rightarrow> string \<Rightarrow> nat \<Rightarrow> string \<Rightarrow> nat option" where
  "tk_search nocase needle start cs =
     find (matches_at nocase needle cs) [start ..< Suc (length cs)]"

definition find_next :: "string \<Rightarrow> bool \<Rightarrow> editor \<Rightarrow> editor" where
  "find_next needle match_case s =
     (if needle = [] then s
      else case tk_search (\<not> match_case) needle (insert_mark s) (content s) of
             None \<Rightarrow> s\<lparr>dialogs := dialogs s @ [No_more_matches]\<rparr>
           | Some idx \<Rightarrow> mark_set_insert (idx + length needle) s)"

definition replace_one :: "string \<Rightarrow> string \<Rightarrow> bool \<Rightarrow> editor \<Rightarrow> editor" where
  "replace_one needle repl match_case s =
     (if needle = [] then s
      else case tk_search (\<not> match_case) needle (insert_mark s) (content s) of
             None \<Rightarrow> s\<lparr>dialogs := dialogs s @ [No_matches]\<rparr>
           | Some idx \<Rightarrow>
               mark_set_insert (idx + length repl)
                 (tk_insert idx repl (tk_delete idx (idx + length needle) s)))"

text \<open>
  The \<^verbatim>\<open>while True\<close> loop of \<open>replace_all\<close>, with the scan position and the counter as
  arguments. A run that never leaves the loop has the value \<open>None\<close>.
\<close>

partial_function (option) replace_all_loop ::
  "bool \<Rightarrow> string \<Rightarrow> string \<Rightarrow> nat \<Rightarrow> nat \<Rightarrow> editor \<Rightarrow> (nat \<times> editor) option" where
  "replace_all_loop nocase needle repl idx count s =
     (case tk_search nocase needle idx (content s) of
        None \<Rightarrow> Some (count, s)
      | Some m \<Rightarrow>
          replace_all_loop nocase needle repl (m + length repl) (count + 1)
            (tk_insert m repl (tk_delete m (m + length needle) s)))"

definition replace_all :: "string \<Rightarrow> string \<Rightarrow> bool \<Rightarrow> editor \<Rightarrow> editor option" where
  "replace_all needle repl match_case s =
     (if needle = [] then Some s
      else case replace_all_loop (\<not> match_case) needle repl 0 0 s of
             None \<Rightarrow> None
           | Some (count, s1) \<Rightarrow> Some (s1\<lparr>dialogs := dialogs s1 @ [Replaced count]\<rparr>))"


section \<open>Example documents\<close>

definition empty_disk :: filesystem where
  "empty_disk = \<lparr>os = Posix, files = Map.empty, writable = (\<lambda>p. True)\<rparr>"

text \<open>The state after \<^verbatim>\<open>Notepad.__init__\<close>: an empty, untitled document.\<close>

definition init :: "filesystem \<Rightarrow> editor" where
  "init fs = \<lparr>content = [], insert_mark = 0, modified = False, pending = 0, wrap = False,
      filename = None, title = (None, False), status = (None, 1, 1, False), dialogs = [],
      disk = fs, running = True\<rparr>"

definition three_lines :: editor where
  "three_lines = (init empty_disk)\<lparr>content := ''ab'' @ [LF] @ ''cd'' @ [LF] @ ''ef'', insert_mark := 4\<rparr>"



text \<open>The user's text ends in two line feeds.\<close>

definition two_blank_lines :: editor where
  "two_blank_lines = (init empty_disk)\<lparr>content := ''a'' @ [LF, LF], insert_mark := 3\<rparr>"



text \<open>A text with a carriage return inside, and one with line feeds only.\<close>

definition cr_doc :: editor where
  "cr_doc = (init empty_disk)\<lparr>content := ''a'' @ [CR] @ ''b'', insert_mark := 3\<rparr>"

definition plain_doc :: editor where
  "plain_doc = (init empty_disk)\<lparr>content := ''ab'' @ [LF] @ ''cd'', insert_mark := 5\<rparr>"

section \<open>Go to line: the caret lands on the clamped line\<close>

lemma skip_lines_le: "skip_lines k cs \<le> length cs"
  by (induction k cs rule: skip_lines.induct) auto

lemma count_take_skip_lines:
  "k \<le> count_list cs LF \<Longrightarrow> count_list (take (skip_lines k cs) cs) LF = k"
  by (induction k cs rule: skip_lines.induct) auto

lemma skip_lines_pos: "0 < skip_lines k cs \<Longrightarrow> 0 < k"
  by (cases k) auto

lemma last_take_skip_lines:
  "0 < k \<Longrightarrow> k \<le> count_list cs LF \<Longrightarrow>
     take (skip_lines k cs) cs \<noteq> [] \<and> last (take (skip_lines k cs) cs) = LF"
  by (induction k cs rule: skip_lines.induct) (auto split: if_splits dest: skip_lines_pos)

lemma column_take_skip_lines:
  assumes "k \<le> count_list cs LF"
  shows "takeWhile (\<lambda>c. c \<noteq> LF) (rev (take (skip_lines k cs) cs)) = []"
proof (cases k)
  case 0
  then show ?thesis by simp
next
  case (Suc j)
  with assms last_take_skip_lines [of k cs]
  have ne: "take (skip_lines k cs) cs \<noteq> []" and l: "last (take (skip_lines k cs) cs) = LF"
    by simp_all
  then have "hd (rev (take (skip_lines k cs) cs)) = LF"
    by (simp add: hd_rev)
  with ne show ?thesis
    by (cases "rev (take (skip_lines k cs) cs)") auto
qed

lemma tk_index_line_start:
  "1 \<le> line \<Longrightarrow> line \<le> Suc (count_list cs LF) \<Longrightarrow>
     tk_index cs (tk_offset cs line 0) = (line, 0)"
  by (simp add: tk_index_def tk_offset_def count_take_skip_lines column_take_skip_lines)

text \<open>
  C8. For every integer \<open>n\<close>, \<open>goto_line\<close> puts the caret at column 0 of line \<open>n\<close> clamped
  to the range from 1 to the last line: line 1 when \<open>n < 1\<close>, the last line when \<open>n\<close> is
  past it, line \<open>n\<close> otherwise. The caret stays inside the text, and the text is not
  changed.
\<close>

theorem goto_line_clamps:
  "tk_index (content (goto_line (Some n) s)) (insert_mark (goto_line (Some n) s))
     = (nat (if n < 1 then 1 else if int (last_line s) < n then int (last_line s) else n), 0)
   \<and> insert_mark (goto_line (Some n) s) \<le> length (content (goto_line (Some n) s))
   \<and> content (goto_line (Some n) s) = content s"
proof -
  let ?l = "nat (if n < 1 then 1 else if int (last_line s) < n then int (last_line s) else n)"
  have ll: "last_line s = Suc (count_list (content s) LF)"
    by (simp add: last_line_def tk_index_def)
  have rng: "1 \<le> ?l" "?l \<le> Suc (count_list (content s) LF)"
    using ll by auto
  have off: "tk_offset (content s) ?l 0 \<le> length (content s)"
    by (simp add: tk_offset_def skip_lines_le)
  have g: "goto_line (Some n) s = update_status (mark_set_insert (tk_offset (content s) ?l 0) s)"
    by (simp add: goto_line_def Let_def ll)
  have c: "content (goto_line (Some n) s) = content s"
    by (simp add: g update_status_def mark_set_insert_def Let_def split: prod.splits)
  have m: "insert_mark (goto_line (Some n) s) = tk_offset (content s) ?l 0"
    using off by (simp add: g update_status_def mark_set_insert_def Let_def split: prod.splits)
  show ?thesis
    using tk_index_line_start [OF rng] off by (simp add: c m)
qed

theorem goto_line_clamps_witness:
  "tk_index (content (goto_line (Some 0) three_lines)) (insert_mark (goto_line (Some 0) three_lines))
     = (1, 0)
   \<and> tk_index (content (goto_line (Some 1000000) three_lines))
        (insert_mark (goto_line (Some 1000000) three_lines)) = (3, 0)"
proof -
  have "last_line three_lines = 3"
    by (simp add: last_line_def tk_index_def three_lines_def init_def)
  then show ?thesis
    using goto_line_clamps [of 0 three_lines] goto_line_clamps [of 1000000 three_lines]
    by auto
qed

section \<open>The unsaved-changes prompt\<close>





section \<open>Opening a file that cannot be read\<close>

lemma read_text_fails_iff:
  "(\<exists>e. read_text fs path = Inl e) \<longleftrightarrow>
     files fs path = None \<or> files fs path = Some Unreadable \<or> files fs path = Some Undecodable"
  by (auto simp: read_text_def split: option.splits node.splits)



section \<open>Find\<close>











section \<open>The empty needle\<close>

text \<open>
  C9, as the code has it. With an empty needle \<open>find_next\<close>, \<open>replace_one\<close> and
  \<open>replace_all\<close> return at once: the state is unchanged, and \<open>replace_all\<close> shows no message,
  so no count is reported.
\<close>

theorem empty_needle_noop:
  "find_next [] match_case s = s \<and>
   replace_one [] repl match_case s = s \<and>
   replace_all [] repl match_case s = Some s"
  by (simp add: find_next_def replace_one_def replace_all_def)

text \<open>C9 as stated fails: no "replaced 0" report is shown for an empty needle.\<close>

theorem empty_needle_reports_nothing:
  "\<not> (\<exists>s'. replace_all [] ''x'' True (init empty_disk) = Some s' \<and> Replaced 0 \<in> set (dialogs s'))"
  by (simp add: replace_all_def init_def)

section \<open>What save writes\<close>

lemma rstrip_newlines_snoc: "rstrip_newlines (cs @ [LF]) = rstrip_newlines cs"
  by (simp add: rstrip_newlines_def)

text \<open>
  C2, evaluated on the code: for the text \<open>a\<close> followed by two line feeds, \<open>save_as\<close> writes
  \<open>a\<close> alone. Both line feeds of the user are gone with the widget's own.
\<close>

theorem save_strips_every_trailing_newline:
  "files (disk (snd (save_as ''f.txt'' two_blank_lines))) ''f.txt'' = Some (Stored ''a'')"
  by (simp add: save_as_def two_blank_lines_def init_def empty_disk_def tk_get_all_def
      write_text_def rstrip_newlines_def translate_newlines_def update_title_def
      edit_modified_def)

section \<open>The modified flag\<close>

text \<open>
  C1, evaluated on the code: after typing \<open>a\<close> into the new, never saved document and
  delivering the queued event, the text is \<open>a\<close> and the modified flag is false; \<open>new_file\<close>
  then asks nothing and clears the text.
\<close>

theorem typing_leaves_flag_clear:
  "content (type_text ''a'' (init empty_disk)) = ''a'' \<and>
   modified (type_text ''a'' (init empty_disk)) = False \<and>
   content (new_file Cancel [] (type_text ''a'' (init empty_disk))) = []"
proof -
  have t: "type_text ''a'' (init empty_disk) =
      (init empty_disk)\<lparr>content := ''a'', insert_mark := 1, status := (None, 1, 2, False)\<rparr>"
    by (simp add: type_text_def tk_insert_def touch_def update_status_def init_def tk_index_def
        display_name_def on_modified_def edit_modified_def)
  show ?thesis
    unfolding t
    by (simp add: new_file_def maybe_save_def init_def tk_delete_def touch_def update_title_def)
qed

section \<open>Replace all\<close>




subsection \<open>The pass over the text\<close>






subsection \<open>The loop carries out the pass\<close>







section \<open>Save, then open\<close>

lemma rstrip_newlines_closing:
  "cs = [] \<or> last cs \<noteq> LF \<Longrightarrow> rstrip_newlines (cs @ [LF]) = cs"
proof (cases cs rule: rev_cases)
  case Nil
  then show ?thesis by (simp add: rstrip_newlines_def)
next
  case (snoc ys y)
  assume "cs = [] \<or> last cs \<noteq> LF"
  with snoc show ?thesis by (simp add: rstrip_newlines_def)
qed

lemma universal_newlines_Cons:
  "c \<noteq> CR \<Longrightarrow> universal_newlines (c # cs) = c # universal_newlines cs"
  by (cases cs) simp_all

lemma universal_translate:
  "CR \<notin> set cs \<Longrightarrow> universal_newlines (translate_newlines pf cs) = cs"
proof (induction cs)
  case Nil
  then show ?case by (simp add: translate_newlines_def)
next
  case (Cons c cs)
  then have ih: "universal_newlines (translate_newlines pf cs) = cs" and c: "c \<noteq> CR"
    by auto
  show ?case
  proof (cases "c = LF")
    case True
    then show ?thesis using ih
      by (cases pf) (simp_all add: translate_newlines_def universal_newlines_Cons)
  next
    case False
    then show ?thesis using ih c
      by (simp add: translate_newlines_def universal_newlines_Cons)
  qed
qed

lemma content_replace_all_text:
  "content (tk_insert 0 data (tk_delete 0 (Suc (length (content s))) s)) = data"
  by (auto simp: tk_insert_def tk_delete_def touch_def Let_def)

lemma open_file_clean:
  assumes "\<not> modified s" and "file \<noteq> []" and "read_text (disk s) file = Inr data"
  shows "content (open_file ch save_dialog file s) = data"
    and "filename (open_file ch save_dialog file s) = Some file"
    and "modified (open_file ch save_dialog file s) = False"
  using assms
  by (simp_all add: open_file_def maybe_save_def edit_modified_def update_title_def
      content_replace_all_text)

lemma written_then_read:
  assumes "writable fs file" and "files fs file \<noteq> Some Unreadable"
    and "CR \<notin> set cs" and "cs = [] \<or> last cs \<noteq> LF"
  shows "\<exists>fs1. write_text fs file (rstrip_newlines (cs @ [LF])) = Inr fs1 \<and>
           read_text fs1 file = Inr cs"
  using assms
  by (auto simp: write_text_def read_text_def rstrip_newlines_closing universal_translate
      split: option.splits node.splits)

text \<open>
  C3, as the code has it. When the text does not end in a line feed and holds no carriage
  return, and the path can be written and read, \<open>save_as\<close> succeeds and opening the path
  afterwards gives the same text back; the document then has that path and a clear modified
  flag. This holds for both line separators of the platform.
\<close>

theorem save_then_open_roundtrip:
  assumes "file \<noteq> []" and "writable (disk s) file" and "files (disk s) file \<noteq> Some Unreadable"
    and "CR \<notin> set (content s)" and "content s = [] \<or> last (content s) \<noteq> LF"
  shows "fst (save_as file s) \<and>
         content (open_file ch save_dialog file (snd (save_as file s))) = content s \<and>
         filename (open_file ch save_dialog file (snd (save_as file s))) = Some file \<and>
         \<not> modified (open_file ch save_dialog file (snd (save_as file s)))"
proof -
  from written_then_read [OF assms(2-5)]
  obtain fs1 where w: "write_text (disk s) file (rstrip_newlines (content s @ [LF])) = Inr fs1"
    and r: "read_text fs1 file = Inr (content s)"
    by blast
  let ?s1 = "update_title (edit_modified False (s\<lparr>disk := fs1, filename := Some file\<rparr>))"
  have sv: "save_as file s = (True, ?s1)"
    using assms(1) w by (simp add: save_as_def tk_get_all_def)
  have m: "\<not> modified ?s1" and d: "read_text (disk ?s1) file = Inr (content s)"
    using r by (simp_all add: update_title_def edit_modified_def)
  show ?thesis
    using open_file_clean [OF m assms(1) d, of ch save_dialog] by (simp add: sv)
qed

theorem save_then_open_roundtrip_witness:
  "content (open_file No [] ''f.txt'' (snd (save_as ''f.txt'' plain_doc))) = content plain_doc"
proof -
  have a: "''f.txt'' \<noteq> []" by simp
  have b: "writable (disk plain_doc) ''f.txt''"
    and c: "files (disk plain_doc) ''f.txt'' \<noteq> Some Unreadable"
    and d: "CR \<notin> set (content plain_doc)"
    and e: "content plain_doc = [] \<or> last (content plain_doc) \<noteq> LF"
    by (simp_all add: plain_doc_def init_def empty_disk_def)
  show ?thesis using save_then_open_roundtrip [OF a b c d e, of No "[]"] by simp
qed

text \<open>
  C3 as stated fails: the text \<open>a\<close>, carriage return, \<open>b\<close> does not end in a line feed, is
  saved, and comes back from the file with a line feed in place of the carriage return.
\<close>

theorem carriage_return_not_restored:
  "last (content cr_doc) \<noteq> LF \<and> fst (save_as ''f.txt'' cr_doc) \<and>
   content (open_file No [] ''f.txt'' (snd (save_as ''f.txt'' cr_doc))) \<noteq> content cr_doc"
  by (simp add: save_as_def open_file_def maybe_save_def cr_doc_def init_def empty_disk_def
      tk_get_all_def write_text_def read_text_def rstrip_newlines_def translate_newlines_def
      update_title_def edit_modified_def tk_insert_def tk_delete_def touch_def display_name_def)

end
